theory Spec2Isabelle
  imports Main
begin

section \<open>Data model\<close>

text \<open>
  A \<^verbatim>\<open>TEXT\<close> column of the database holds any string without the character U+0000: the
  database rejects a statement that carries a string with it. \<open>chars\<close> reads a stored text,
  \<open>Text\<close> stores a string that \<open>valid_text\<close> accepts.
\<close>

definition valid_text :: "string \<Rightarrow> bool" where
  "valid_text s = (CHR 0x00 \<notin> set s)"

typedef pg_text = "{s :: string. valid_text s}"
  morphisms chars Text
  by (rule exI [of _ "[]"]) (simp add: valid_text_def)

text \<open>
  The three tables of the migration (\<^verbatim>\<open>CREATE TABLE "Tenant" / "User" / "Note"\<close>) as
  records, the two SQL enums as datatypes. Identifiers, slugs, emails and the other \<^verbatim>\<open>TEXT\<close>
  columns are stored texts, timestamps are natural numbers (milliseconds), the nullable
  \<^verbatim>\<open>"ownerId"\<close> is an option.
\<close>

datatype Plan = FREE | PRO

datatype Role = ADMIN | MEMBER

record Tenant =
  t_id :: pg_text
  t_name :: pg_text
  t_slug :: pg_text
  t_plan :: Plan
  t_createdAt :: nat
  t_updatedAt :: nat

record User =
  u_id :: pg_text
  u_email :: pg_text
  u_password :: pg_text
  u_role :: Role
  u_tenantId :: pg_text
  u_createdAt :: nat
  u_updatedAt :: nat

record Note =
  n_id :: pg_text
  n_title :: pg_text
  n_content :: pg_text
  n_tenantId :: pg_text
  n_ownerId :: "pg_text option"
  n_createdAt :: nat
  n_updatedAt :: nat

text \<open>The stored state: one list of rows per table, in insertion order.\<close>

record db =
  tenant_rows :: "Tenant list"
  user_rows :: "User list"
  note_rows :: "Note list"

section \<open>Requests and responses\<close>

text \<open>
  A scalar JSON value of a field of a request body. \<open>JNumber\<close> carries an integer (the
  code only tests numbers for truthiness). Fields holding arrays or objects are not modelled.
\<close>

datatype jsval = JNull | JBool bool | JNumber int | JString string

text \<open>
  \<^verbatim>\<open>req.headers.authorization\<close> (absent: \<open>None\<close>) and \<^verbatim>\<open>req.body\<close> (absent: \<open>None\<close>; an
  object: the map from its keys to their values).
\<close>

record request =
  authorization :: "string option"
  body :: "(string \<rightharpoonup> jsval) option"

text \<open>
  The payload of a token: \<^verbatim>\<open>{ userId, tenantId, role }\<close>. The program signs a payload in
  one place, the login, from the columns of a stored user; the two ids are stored texts.
\<close>

record Claims =
  userId :: pg_text
  tenantId :: pg_text
  role :: Role

text \<open>The object built by \<^verbatim>\<open>toSafeUser\<close>.\<close>

record SafeUser =
  su_id :: pg_text
  su_email :: pg_text
  su_role :: Role
  su_tenantId :: pg_text

datatype resp_body =
    Error string
  | NoBody
  | Health string
  | LoginJson string SafeUser
  | NoteJson Note
  | NotesJson "Note list"
  | UpgradeJson string Tenant

record response =
  status :: nat
  rbody :: resp_body

text \<open>
  What the handlers take from outside the program: the token library
  (\<^verbatim>\<open>jwt.sign\<close>, \<^verbatim>\<open>jwt.verify\<close> with the server's secret, at the time of the request),
  the password hasher (\<^verbatim>\<open>bcrypt.compare\<close> of a string with a stored hash), the identifier
  the database client generates for a new row, the clock, and the position of each row in
  the scan of the database, which decides the order of rows that a sort leaves open.
\<close>

record env =
  jwt_sign :: "Claims \<Rightarrow> string"
  jwt_verify :: "string \<Rightarrow> Claims option"
  bcrypt_compare :: "string \<Rightarrow> pg_text \<Rightarrow> bool"
  cuid :: pg_text
  now :: nat
  scan_rank :: "Note \<Rightarrow> nat"

definition json :: "nat \<Rightarrow> resp_body \<Rightarrow> response" where
  "json code b = \<lparr>status = code, rbody = b\<rparr>"

text \<open>\<^verbatim>\<open>(req.body || {}).k\<close>: \<open>None\<close> is JavaScript's \<^verbatim>\<open>undefined\<close>.\<close>

definition field :: "request \<Rightarrow> string \<Rightarrow> jsval option" where
  "field req k = (case body req of None \<Rightarrow> None | Some b \<Rightarrow> b k)"

text \<open>JavaScript truthiness, as \<^verbatim>\<open>!x\<close> tests it.\<close>

fun truthy :: "jsval option \<Rightarrow> bool" where
  "truthy None = False"
| "truthy (Some JNull) = False"
| "truthy (Some (JBool b)) = b"
| "truthy (Some (JNumber n)) = (n \<noteq> 0)"
| "truthy (Some (JString s)) = (s \<noteq> [])"

section \<open>The database client\<close>

text \<open>
  Each call of the client is one statement on the tables. A call that the client or the
  database rejects throws; every handler catches the exception and answers 500.
  The client rejects an argument of the wrong type; the database rejects a string with
  U+0000 and a row that breaks a constraint of the migration: the primary keys, the unique
  indexes on \<^verbatim>\<open>"Tenant"."slug"\<close> and \<^verbatim>\<open>"User"."email"\<close>, the foreign keys of \<^verbatim>\<open>"Note"\<close>.
\<close>

datatype prisma_error =
  ValidationError | InvalidText | UniqueConstraint | ForeignKeyConstraint | RecordNotFound

text \<open>\<^verbatim>\<open>prisma.user.findUnique({ where: { email } })\<close>: the argument must be a string.\<close>

definition user_findUnique :: "db \<Rightarrow> jsval option \<Rightarrow> prisma_error + User option" where
  "user_findUnique d email =
     (case email of
        Some (JString e) \<Rightarrow>
          if valid_text e then Inr (find (\<lambda>u. chars (u_email u) = e) (user_rows d))
          else Inl InvalidText
      | _ \<Rightarrow> Inl ValidationError)"

text \<open>
  \<^verbatim>\<open>prisma.tenant.findUnique({ where: { id } })\<close>, with the id of the token, and
  \<^verbatim>\<open>prisma.tenant.findFirst({ where: { slug } })\<close>, with the slug of the path.
\<close>

definition tenant_findUnique :: "db \<Rightarrow> pg_text \<Rightarrow> Tenant option" where
  "tenant_findUnique d i = find (\<lambda>t. t_id t = i) (tenant_rows d)"

definition tenant_findFirst :: "db \<Rightarrow> string \<Rightarrow> prisma_error + Tenant option" where
  "tenant_findFirst d slug =
     (if valid_text slug then Inr (find (\<lambda>t. chars (t_slug t) = slug) (tenant_rows d))
      else Inl InvalidText)"

text \<open>\<^verbatim>\<open>prisma.tenant.update({ where: { id }, data: { plan: 'PRO' } })\<close>; the client stamps \<^verbatim>\<open>updatedAt\<close>.\<close>

definition tenant_update :: "env \<Rightarrow> db \<Rightarrow> pg_text \<Rightarrow> Plan \<Rightarrow> prisma_error + (Tenant \<times> db)" where
  "tenant_update e d i p =
     (case find (\<lambda>t. t_id t = i) (tenant_rows d) of
        None \<Rightarrow> Inl RecordNotFound
      | Some t \<Rightarrow>
          let upd = (\<lambda>t. t\<lparr>t_plan := p, t_updatedAt := now e\<rparr>)
          in Inr (upd t, d\<lparr>tenant_rows := map (\<lambda>t. if t_id t = i then upd t else t) (tenant_rows d)\<rparr>))"

text \<open>\<^verbatim>\<open>prisma.note.count({ where: { tenantId } })\<close>, with the id of the tenant row.\<close>

definition note_count :: "db \<Rightarrow> pg_text \<Rightarrow> nat" where
  "note_count d tid = length (filter (\<lambda>n. n_tenantId n = tid) (note_rows d))"

text \<open>
  \<^verbatim>\<open>prisma.note.create({ data: { title, content, tenantId, ownerId } })\<close>: title and content
  must be strings that the database can store, the generated id must be new, the tenant and
  the owner must exist.
\<close>

definition note_create ::
  "env \<Rightarrow> db \<Rightarrow> jsval option \<Rightarrow> jsval option \<Rightarrow> pg_text \<Rightarrow> pg_text \<Rightarrow> prisma_error + (Note \<times> db)" where
  "note_create e d title content tid oid =
     (case (title, content) of
        (Some (JString t), Some (JString c)) \<Rightarrow>
          if \<not> valid_text t \<or> \<not> valid_text c then Inl InvalidText
          else if cuid e \<in> set (map n_id (note_rows d)) then Inl UniqueConstraint
          else if tid \<notin> set (map t_id (tenant_rows d)) \<or> oid \<notin> set (map u_id (user_rows d))
            then Inl ForeignKeyConstraint
          else
            let n = \<lparr>n_id = cuid e, n_title = Text t, n_content = Text c, n_tenantId = tid,
                     n_ownerId = Some oid, n_createdAt = now e, n_updatedAt = now e\<rparr>
            in Inr (n, d\<lparr>note_rows := note_rows d @ [n]\<rparr>)
      | _ \<Rightarrow> Inl ValidationError)"

text \<open>
  \<^verbatim>\<open>prisma.note.findMany({ where: { tenantId }, orderBy: { createdAt: 'desc' } })\<close>: the rows
  of the tenant, latest first; rows of one \<^verbatim>\<open>createdAt\<close> come in the order of the scan, which
  the statement does not fix.
\<close>

definition note_findMany :: "env \<Rightarrow> db \<Rightarrow> pg_text \<Rightarrow> Note list" where
  "note_findMany e d tid =
     rev (sort_key n_createdAt (sort_key (scan_rank e) (filter (\<lambda>n. n_tenantId n = tid) (note_rows d))))"

text \<open>\<^verbatim>\<open>prisma.note.findFirst({ where: { id, tenantId } })\<close>, with the id of the path.\<close>

definition note_findFirst :: "db \<Rightarrow> string \<Rightarrow> pg_text \<Rightarrow> prisma_error + Note option" where
  "note_findFirst d i tid =
     (if valid_text i
      then Inr (find (\<lambda>n. chars (n_id n) = i \<and> n_tenantId n = tid) (note_rows d))
      else Inl InvalidText)"

text \<open>
  One field of the \<^verbatim>\<open>data\<close> of an update: the client skips a field whose value is
  \<^verbatim>\<open>undefined\<close> and writes a string that the database can store; any other value is
  rejected for a \<^verbatim>\<open>TEXT NOT NULL\<close> column.
\<close>

fun valid_field :: "jsval option \<Rightarrow> bool" where
  "valid_field None = True"
| "valid_field (Some (JString s)) = valid_text s"
| "valid_field (Some v) = False"

fun set_field :: "jsval option \<Rightarrow> pg_text \<Rightarrow> pg_text" where
  "set_field (Some (JString s)) old = Text s"
| "set_field v old = old"

text \<open>
  \<^verbatim>\<open>prisma.note.update({ where: { id }, data: { title, content } })\<close>. With both fields
  \<^verbatim>\<open>undefined\<close> there is nothing to write: the row is returned as it is stored. Otherwise the
  client writes the fields given and stamps \<^verbatim>\<open>updatedAt\<close>.
\<close>

definition note_update ::
  "env \<Rightarrow> db \<Rightarrow> pg_text \<Rightarrow> jsval option \<Rightarrow> jsval option \<Rightarrow> prisma_error + (Note \<times> db)" where
  "note_update e d i title content =
     (if \<not> valid_field title \<or> \<not> valid_field content then Inl ValidationError
      else case find (\<lambda>n. n_id n = i) (note_rows d) of
        None \<Rightarrow> Inl RecordNotFound
      | Some n \<Rightarrow>
          if title = None \<and> content = None then Inr (n, d)
          else
            let upd = (\<lambda>m. m\<lparr>n_title := set_field title (n_title m),
                             n_content := set_field content (n_content m),
                             n_updatedAt := now e\<rparr>)
            in Inr (upd n, d\<lparr>note_rows := map (\<lambda>m. if n_id m = i then upd m else m) (note_rows d)\<rparr>))"

text \<open>\<^verbatim>\<open>prisma.note.delete({ where: { id } })\<close>.\<close>

definition note_delete :: "db \<Rightarrow> pg_text \<Rightarrow> prisma_error + db" where
  "note_delete d i =
     (if i \<in> set (map n_id (note_rows d))
      then Inr (d\<lparr>note_rows := filter (\<lambda>n. n_id n \<noteq> i) (note_rows d)\<rparr>)
      else Inl RecordNotFound)"

section \<open>Middleware\<close>

text \<open>\<^verbatim>\<open>toSafeUser\<close>: the four fields picked from a user row.\<close>

definition toSafeUser :: "User \<Rightarrow> SafeUser" where
  "toSafeUser u = \<lparr>su_id = u_id u, su_email = u_email u, su_role = u_role u, su_tenantId = u_tenantId u\<rparr>"

text \<open>JavaScript's \<^verbatim>\<open>s.split(sep)\<close> for a separator of one character.\<close>

fun js_split :: "char \<Rightarrow> string \<Rightarrow> string list" where
  "js_split sep [] = [[]]"
| "js_split sep (x # xs) =
     (if x = sep then [] # js_split sep xs
      else (case js_split sep xs of [] \<Rightarrow> [[x]] | w # ws \<Rightarrow> (x # w) # ws))"

text \<open>\<^verbatim>\<open>const [, token] = parts\<close>: the second element, \<^verbatim>\<open>undefined\<close> when there is none.\<close>

fun second :: "'a list \<Rightarrow> 'a option" where
  "second (a # b # bs) = Some b"
| "second bs = None"

text \<open>
  \<^verbatim>\<open>authenticate\<close>: \<open>Inl\<close> is the response that ends the request, \<open>Inr\<close> the payload stored in
  \<^verbatim>\<open>req.user\<close> before \<^verbatim>\<open>next()\<close>. A token that \<^verbatim>\<open>jwt.verify\<close> rejects makes it throw.
\<close>

definition authenticate :: "env \<Rightarrow> request \<Rightarrow> response + Claims" where
  "authenticate e req =
     (let auth = (case authorization req of None \<Rightarrow> [] | Some h \<Rightarrow> h)
      in case second (js_split CHR '' '' auth) of
           None \<Rightarrow> Inl (json 401 (Error ''Missing token''))
         | Some token \<Rightarrow>
             if token = [] then Inl (json 401 (Error ''Missing token''))
             else (case jwt_verify e token of
                     None \<Rightarrow> Inl (json 401 (Error ''Invalid token''))
                   | Some payload \<Rightarrow> Inr payload))"

text \<open>\<^verbatim>\<open>requireRole(role)\<close>: \<open>None\<close> is \<^verbatim>\<open>next()\<close>.\<close>

definition requireRole :: "Role \<Rightarrow> Claims option \<Rightarrow> response option" where
  "requireRole r user =
     (case user of
        None \<Rightarrow> Some (json 401 (Error ''Unauthorized''))
      | Some u \<Rightarrow> if role u \<noteq> r then Some (json 403 (Error ''Forbidden'')) else None)"

section \<open>Handlers\<close>

text \<open>
  Each handler returns its response and the state it leaves. The handlers behind
  \<^verbatim>\<open>authenticate\<close> take the payload of the token. The body of every handler is in a
  \<^verbatim>\<open>try\<close> whose \<^verbatim>\<open>catch\<close> answers 500: that is the answer where a call of the database
  client throws, and where \<^verbatim>\<open>bcrypt.compare\<close> is given a password that is not a string.
\<close>

definition internal_error :: response where
  "internal_error = json 500 (Error ''Internal server error'')"

definition get_health :: response where
  "get_health = json 200 (Health ''ok'')"

definition post_login :: "env \<Rightarrow> db \<Rightarrow> request \<Rightarrow> response" where
  "post_login e d req =
     (let email = field req ''email''; password = field req ''password''
      in if \<not> truthy email \<or> \<not> truthy password
         then json 400 (Error ''Email and password are required'')
         else (case user_findUnique d email of
                 Inl err \<Rightarrow> internal_error
               | Inr None \<Rightarrow> json 401 (Error ''Invalid credentials'')
               | Inr (Some user) \<Rightarrow>
                   (case password of
                      Some (JString pw) \<Rightarrow>
                        if \<not> bcrypt_compare e pw (u_password user)
                        then json 401 (Error ''Invalid credentials'')
                        else json 200 (LoginJson
                               (jwt_sign e \<lparr>userId = u_id user, tenantId = u_tenantId user, role = u_role user\<rparr>)
                               (toSafeUser user))
                    | _ \<Rightarrow> internal_error)))"

definition post_notes :: "env \<Rightarrow> db \<Rightarrow> Claims \<Rightarrow> request \<Rightarrow> response \<times> db" where
  "post_notes e d user req =
     (let title = field req ''title''; content = field req ''content''
      in if \<not> truthy title \<or> \<not> truthy content
         then (json 400 (Error ''Title and content are required''), d)
         else (case tenant_findUnique d (tenantId user) of
                 None \<Rightarrow> (json 404 (Error ''Tenant not found''), d)
               | Some tenant \<Rightarrow>
                   if t_plan tenant = FREE \<and> note_count d (t_id tenant) \<ge> 3
                   then (json 402 (Error ''FREE plan limit reached. Upgrade to PRO.''), d)
                   else (case note_create e d title content (tenantId user) (userId user) of
                           Inl err \<Rightarrow> (internal_error, d)
                         | Inr (note, d') \<Rightarrow> (json 201 (NoteJson note), d'))))"

definition get_notes :: "env \<Rightarrow> db \<Rightarrow> Claims \<Rightarrow> response \<times> db" where
  "get_notes e d user = (json 200 (NotesJson (note_findMany e d (tenantId user))), d)"

definition get_notes_id :: "db \<Rightarrow> Claims \<Rightarrow> string \<Rightarrow> response \<times> db" where
  "get_notes_id d user i =
     (case note_findFirst d i (tenantId user) of
        Inl err \<Rightarrow> (internal_error, d)
      | Inr None \<Rightarrow> (json 404 (Error ''Not found''), d)
      | Inr (Some note) \<Rightarrow> (json 200 (NoteJson note), d))"

definition put_notes_id :: "env \<Rightarrow> db \<Rightarrow> Claims \<Rightarrow> string \<Rightarrow> request \<Rightarrow> response \<times> db" where
  "put_notes_id e d user i req =
     (let title = field req ''title''; content = field req ''content''
      in case note_findFirst d i (tenantId user) of
           Inl err \<Rightarrow> (internal_error, d)
         | Inr None \<Rightarrow> (json 404 (Error ''Not found''), d)
         | Inr (Some existing) \<Rightarrow>
             (case note_update e d (n_id existing) title content of
                Inl err \<Rightarrow> (internal_error, d)
              | Inr (updated, d') \<Rightarrow> (json 200 (NoteJson updated), d')))"

definition delete_notes_id :: "db \<Rightarrow> Claims \<Rightarrow> string \<Rightarrow> response \<times> db" where
  "delete_notes_id d user i =
     (case note_findFirst d i (tenantId user) of
        Inl err \<Rightarrow> (internal_error, d)
      | Inr None \<Rightarrow> (json 404 (Error ''Not found''), d)
      | Inr (Some existing) \<Rightarrow>
          (case note_delete d (n_id existing) of
             Inl err \<Rightarrow> (internal_error, d)
           | Inr d' \<Rightarrow> (json 204 NoBody, d')))"

definition post_tenants_upgrade :: "env \<Rightarrow> db \<Rightarrow> Claims \<Rightarrow> string \<Rightarrow> response \<times> db" where
  "post_tenants_upgrade e d user slug =
     (case tenant_findFirst d slug of
        Inl err \<Rightarrow> (internal_error, d)
      | Inr None \<Rightarrow> (json 404 (Error ''Tenant not found''), d)
      | Inr (Some tenant) \<Rightarrow>
          if t_id tenant \<noteq> tenantId user
          then (json 403 (Error ''Cannot upgrade another tenant''), d)
          else if t_plan tenant = PRO
          then (json 200 (UpgradeJson ''Already PRO'' tenant), d)
          else (case tenant_update e d (t_id tenant) PRO of
                  Inl err \<Rightarrow> (internal_error, d)
                | Inr (updated, d') \<Rightarrow> (json 200 (UpgradeJson ''Upgraded to PRO'' updated), d')))"

section \<open>Routes\<close>

text \<open>The eight routes of the application, each with its path parameter.\<close>

datatype route =
    GET_health
  | POST_login
  | POST_notes
  | GET_notes
  | GET_notes_id string
  | PUT_notes_id string
  | DELETE_notes_id string
  | POST_tenants_upgrade string

text \<open>A route behind \<^verbatim>\<open>authenticate\<close>: the handler runs only after \<^verbatim>\<open>next()\<close>.\<close>

definition authenticated :: "env \<Rightarrow> db \<Rightarrow> request \<Rightarrow> (Claims \<Rightarrow> response \<times> db) \<Rightarrow> response \<times> db" where
  "authenticated e d req handler =
     (case authenticate e req of Inl r \<Rightarrow> (r, d) | Inr user \<Rightarrow> handler user)"

fun handle :: "env \<Rightarrow> db \<Rightarrow> route \<Rightarrow> request \<Rightarrow> response \<times> db" where
  "handle e d GET_health req = (get_health, d)"
| "handle e d POST_login req = (post_login e d req, d)"
| "handle e d POST_notes req = authenticated e d req (\<lambda>user. post_notes e d user req)"
| "handle e d GET_notes req = authenticated e d req (\<lambda>user. get_notes e d user)"
| "handle e d (GET_notes_id i) req = authenticated e d req (\<lambda>user. get_notes_id d user i)"
| "handle e d (PUT_notes_id i) req = authenticated e d req (\<lambda>user. put_notes_id e d user i req)"
| "handle e d (DELETE_notes_id i) req = authenticated e d req (\<lambda>user. delete_notes_id d user i)"
| "handle e d (POST_tenants_upgrade slug) req =
     authenticated e d req (\<lambda>user.
       case requireRole ADMIN (Some user) of
         Some r \<Rightarrow> (r, d)
       | None \<Rightarrow> post_tenants_upgrade e d user slug)"

section \<open>Keys\<close>

text \<open>
  The primary keys and the unique indexes of the migration: no two rows of a table share an
  id, no two tenants a slug, no two users an email.
\<close>

definition keys_ok :: "db \<Rightarrow> bool" where
  "keys_ok d = (distinct (map t_id (tenant_rows d)) \<and> distinct (map t_slug (tenant_rows d))
              \<and> distinct (map u_id (user_rows d)) \<and> distinct (map u_email (user_rows d))
              \<and> distinct (map n_id (note_rows d)))"

section \<open>Example data\<close>

text \<open>
  A small state used to run the handlers: tenant Acme on the FREE plan with three notes,
  tenant Globex on the PRO plan with one, and a token per user.
\<close>

definition acme :: Tenant where
  "acme = \<lparr>t_id = Text ''t-acme'', t_name = Text ''Acme'', t_slug = Text ''acme'', t_plan = FREE,
           t_createdAt = 1, t_updatedAt = 1\<rparr>"

definition globex :: Tenant where
  "globex = \<lparr>t_id = Text ''t-globex'', t_name = Text ''Globex'', t_slug = Text ''globex'', t_plan = PRO,
             t_createdAt = 2, t_updatedAt = 2\<rparr>"

definition alice :: User where
  "alice = \<lparr>u_id = Text ''u-alice'', u_email = Text ''alice@acme.test'', u_password = Text ''hash:pw-alice'',
            u_role = ADMIN, u_tenantId = Text ''t-acme'', u_createdAt = 3, u_updatedAt = 3\<rparr>"

definition bob :: User where
  "bob = \<lparr>u_id = Text ''u-bob'', u_email = Text ''bob@acme.test'', u_password = Text ''hash:pw-bob'',
          u_role = MEMBER, u_tenantId = Text ''t-acme'', u_createdAt = 4, u_updatedAt = 4\<rparr>"

definition carol :: User where
  "carol = \<lparr>u_id = Text ''u-carol'', u_email = Text ''carol@globex.test'', u_password = Text ''hash:pw-carol'',
            u_role = ADMIN, u_tenantId = Text ''t-globex'', u_createdAt = 5, u_updatedAt = 5\<rparr>"

text \<open>Dave was a member of Globex: his token still verifies, his row is gone.\<close>

definition dave :: User where
  "dave = \<lparr>u_id = Text ''u-dave'', u_email = Text ''dave@globex.test'', u_password = Text ''hash:pw-dave'',
           u_role = MEMBER, u_tenantId = Text ''t-globex'', u_createdAt = 6, u_updatedAt = 6\<rparr>"

definition note1 :: Note where
  "note1 = \<lparr>n_id = Text ''n1'', n_title = Text ''Groceries'', n_content = Text ''Buy milk'',
            n_tenantId = Text ''t-acme'', n_ownerId = Some (Text ''u-alice''), n_createdAt = 10, n_updatedAt = 10\<rparr>"

definition note2 :: Note where
  "note2 = \<lparr>n_id = Text ''n2'', n_title = Text ''Plan'', n_content = Text ''Q3 roadmap'',
            n_tenantId = Text ''t-acme'', n_ownerId = Some (Text ''u-bob''), n_createdAt = 11, n_updatedAt = 11\<rparr>"

definition note3 :: Note where
  "note3 = \<lparr>n_id = Text ''n3'', n_title = Text ''Ideas'', n_content = Text ''Dark mode'',
            n_tenantId = Text ''t-acme'', n_ownerId = Some (Text ''u-alice''), n_createdAt = 12, n_updatedAt = 12\<rparr>"

definition note4 :: Note where
  "note4 = \<lparr>n_id = Text ''n4'', n_title = Text ''Secret'', n_content = Text ''Globex only'',
            n_tenantId = Text ''t-globex'', n_ownerId = Some (Text ''u-carol''), n_createdAt = 13, n_updatedAt = 13\<rparr>"

definition demo_db :: db where
  "demo_db = \<lparr>tenant_rows = [acme, globex], user_rows = [alice, bob, carol],
               note_rows = [note1, note2, note3, note4]\<rparr>"

definition claims_of :: "User \<Rightarrow> Claims" where
  "claims_of u = \<lparr>userId = u_id u, tenantId = u_tenantId u, role = u_role u\<rparr>"

definition demo_env :: env where
  "demo_env = \<lparr>jwt_sign = (\<lambda>c. ''tok-'' @ chars (userId c)),
                jwt_verify = (\<lambda>t. if t = ''tok-u-alice'' then Some (claims_of alice)
                                   else if t = ''tok-u-bob'' then Some (claims_of bob)
                                   else if t = ''tok-u-carol'' then Some (claims_of carol)
                                   else if t = ''tok-u-dave'' then Some (claims_of dave)
                                   else None),
                bcrypt_compare = (\<lambda>pw h. chars h = ''hash:'' @ pw),
                cuid = Text ''n5'',
                now = 100,
                scan_rank = (\<lambda>n. 0)\<rparr>"

definition bearer :: "string \<Rightarrow> (string \<rightharpoonup> jsval) option \<Rightarrow> request" where
  "bearer token b = \<lparr>authorization = Some (''Bearer '' @ token), body = b\<rparr>"

text \<open>The body \<^verbatim>\<open>{ "title": t, "content": c }\<close>.\<close>

definition note_body :: "string \<Rightarrow> string \<Rightarrow> (string \<rightharpoonup> jsval) option" where
  "note_body t c = Some [''title'' \<mapsto> JString t, ''content'' \<mapsto> JString c]"

text \<open>
  The body \<^verbatim>\<open>{ "email": e, "password": p }\<close> with a string as the password and with a number
  as the password.
\<close>

definition login_body :: "string \<Rightarrow> string \<Rightarrow> request" where
  "login_body em pw = \<lparr>authorization = None,
                         body = Some [''email'' \<mapsto> JString em, ''password'' \<mapsto> JString pw]\<rparr>"

definition login_number :: "string \<Rightarrow> int \<Rightarrow> request" where
  "login_number em pw = \<lparr>authorization = None,
                           body = Some [''email'' \<mapsto> JString em, ''password'' \<mapsto> JNumber pw]\<rparr>"



section \<open>Stored texts\<close>

lemma chars_Text: "valid_text s \<Longrightarrow> chars (Text s) = s"
  by (simp add: Text_inverse)

lemma valid_chars: "valid_text (chars x)"
  using chars [of x] by simp

lemma Text_eq_iff: "valid_text s \<Longrightarrow> valid_text t \<Longrightarrow> (Text s = Text t) = (s = t)"
  by (simp add: Text_inject)

lemma chars_eq_iff: "(chars a = chars b) = (a = b)"
  by (rule chars_inject)

text \<open>The facts that evaluate a text written out as a string.\<close>

lemmas demo_texts = valid_text_def chars_Text Text_eq_iff

section \<open>Splitting the header\<close>

lemma js_split_nosep: "sep \<notin> set s \<Longrightarrow> js_split sep s = [s]"
  by (induction s) auto

lemma js_split_append: "sep \<notin> set a \<Longrightarrow> js_split sep (a @ sep # b) = a # js_split sep b"
  by (induction a) auto

lemma js_split_token_rest:
  assumes "sep \<notin> set tok" "rest = [] \<or> hd rest = sep"
  shows "\<exists>ws. js_split sep (tok @ rest) = tok # ws"
proof (cases rest)
  case Nil
  then show ?thesis using assms by (simp add: js_split_nosep)
next
  case (Cons r rs)
  then have "rest = sep # rs" using assms by auto
  then show ?thesis using assms by (simp add: js_split_append)
qed

text \<open>
  C10. \<^verbatim>\<open>authenticate\<close> splits the header on single spaces and verifies the second segment
  only: a header \<open>scheme token\<close> or \<open>scheme token rest\<close> whose token verifies is accepted with
  the token's payload, whatever the scheme word is; a header without a space, a header with
  nothing after its first space, and a missing header are answered 401 \<open>Missing token\<close>.
  (A token that verifies is never the empty string.)
\<close>

theorem authenticate_second_segment:
  assumes nosp: "CHR '' '' \<notin> set scheme" "CHR '' '' \<notin> set tok"
      and rest: "rest = [] \<or> hd rest = CHR '' ''"
      and valid: "tok \<noteq> []" "jwt_verify e tok = Some c"
  shows "authenticate e (req\<lparr>authorization := Some (scheme @ '' '' @ tok @ rest)\<rparr>) = Inr c
       \<and> authenticate e (req\<lparr>authorization := Some scheme\<rparr>) = Inl (json 401 (Error ''Missing token''))
       \<and> authenticate e (req\<lparr>authorization := Some (scheme @ '' '')\<rparr>) = Inl (json 401 (Error ''Missing token''))
       \<and> authenticate e (req\<lparr>authorization := None\<rparr>) = Inl (json 401 (Error ''Missing token''))"
proof -
  obtain ws where ws: "js_split CHR '' '' (tok @ rest) = tok # ws"
    using js_split_token_rest [OF nosp(2) rest] by blast
  have "js_split CHR '' '' (scheme @ '' '' @ tok @ rest) = scheme # tok # ws"
    using js_split_append [OF nosp(1), of "tok @ rest"] ws by simp
  then have accept: "authenticate e (req\<lparr>authorization := Some (scheme @ '' '' @ tok @ rest)\<rparr>) = Inr c"
    using valid by (simp add: authenticate_def)
  have nospace: "authenticate e (req\<lparr>authorization := Some scheme\<rparr>) = Inl (json 401 (Error ''Missing token''))"
    using nosp(1) by (simp add: authenticate_def js_split_nosep)
  have "js_split CHR '' '' (scheme @ '' '') = [scheme, []]"
    using js_split_append [OF nosp(1), of "[]"] by simp
  then have empty: "authenticate e (req\<lparr>authorization := Some (scheme @ '' '')\<rparr>) = Inl (json 401 (Error ''Missing token''))"
    by (simp add: authenticate_def)
  have absent: "authenticate e (req\<lparr>authorization := None\<rparr>) = Inl (json 401 (Error ''Missing token''))"
    by (simp add: authenticate_def)
  from accept nospace empty absent show ?thesis by blast
qed

theorem authenticate_second_segment_witness:
  "authenticate demo_env \<lparr>authorization = Some ''Token tok-u-bob trailing'', body = None\<rparr> = Inr (claims_of bob)
   \<and> authenticate demo_env \<lparr>authorization = Some ''Token'', body = None\<rparr> = Inl (json 401 (Error ''Missing token''))
   \<and> authenticate demo_env \<lparr>authorization = Some ''Token '', body = None\<rparr> = Inl (json 401 (Error ''Missing token''))
   \<and> authenticate demo_env \<lparr>authorization = None, body = None\<rparr> = Inl (json 401 (Error ''Missing token''))"
  using authenticate_second_segment [of "''Token''" "''tok-u-bob''" "'' trailing''" demo_env "claims_of bob"
          "\<lparr>authorization = None, body = None\<rparr>"]
  by (simp add: demo_env_def)

section \<open>Lookups on tables with a key\<close>

lemma find_distinct_key:
  assumes "distinct (map k xs)" "x \<in> set xs" "find P xs = Some y" "k y = k x"
  shows "y = x"
  using assms by (metis distinct_map find_Some_iff inj_on_eq_iff nth_mem)

lemma find_key_member:
  assumes "distinct (map k xs)" "x \<in> set xs"
  shows "find (\<lambda>y. k y = k x) xs = Some x"
proof (cases "find (\<lambda>y. k y = k x) xs")
  case None
  then show ?thesis using assms(2) by (auto simp: find_None_iff)
next
  case (Some y)
  then have "k y = k x" by (auto simp: find_Some_iff)
  then show ?thesis using find_distinct_key [OF assms Some] Some by simp
qed

lemma find_map_preserve:
  assumes "\<And>x. P (f x) = P x"
  shows "find P (map f xs) = map_option f (find P xs)"
  using assms by (induction xs) auto

section \<open>Tenant isolation of reads\<close>

lemma get_route:
  assumes "authenticate e req = Inr c"
  shows "handle e d (GET_notes_id i) req = get_notes_id d c i"
  using assms by (simp add: authenticated_def)

text \<open>
  C1. \<^verbatim>\<open>GET /notes/:id\<close> with a valid token of tenant \<open>T1\<close>: the id of a stored note \<open>N\<close> of
  another tenant is answered 404 \<open>Not found\<close> (an error body, not the note), and the state is
  unchanged; a 200 answer carries a stored note whose id is the requested one and whose
  tenant is the caller's. The note ids are the primary key of the table.
\<close>

theorem get_note_tenant_isolation:
  assumes auth: "authenticate e req = Inr c"
      and pk: "distinct (map n_id (note_rows d))"
      and N: "N \<in> set (note_rows d)" "n_tenantId N \<noteq> tenantId c"
  shows "handle e d (GET_notes_id (chars (n_id N))) req = (json 404 (Error ''Not found''), d)
       \<and> (\<forall>i. status (fst (handle e d (GET_notes_id i) req)) = 200 \<longrightarrow>
            (\<exists>n \<in> set (note_rows d). chars (n_id n) = i \<and> n_tenantId n = tenantId c
               \<and> fst (handle e d (GET_notes_id i) req) = json 200 (NoteJson n)))"
proof -
  let ?P = "\<lambda>n. chars (n_id n) = chars (n_id N) \<and> n_tenantId n = tenantId c"
  have "find ?P (note_rows d) = None"
  proof (cases "find ?P (note_rows d)")
    case None then show ?thesis .
  next
    case (Some y)
    then have y: "n_id y = n_id N" "n_tenantId y = tenantId c"
      by (auto simp: find_Some_iff chars_eq_iff)
    have "y = N" using find_distinct_key [OF pk N(1) Some y(1)] .
    with y N(2) show ?thesis by simp
  qed
  then have "note_findFirst d (chars (n_id N)) (tenantId c) = Inr None"
    by (simp add: note_findFirst_def valid_chars)
  then have a: "handle e d (GET_notes_id (chars (n_id N))) req = (json 404 (Error ''Not found''), d)"
    unfolding get_route [OF auth] by (simp add: get_notes_id_def)
  have b: "\<forall>i. status (fst (handle e d (GET_notes_id i) req)) = 200 \<longrightarrow>
            (\<exists>n \<in> set (note_rows d). chars (n_id n) = i \<and> n_tenantId n = tenantId c
               \<and> fst (handle e d (GET_notes_id i) req) = json 200 (NoteJson n))"
    unfolding get_route [OF auth]
    by (auto simp: get_notes_id_def note_findFirst_def json_def internal_error_def find_Some_iff
             split: option.splits sum.splits if_splits)
  from a b show ?thesis by blast
qed

theorem get_note_tenant_isolation_witness:
  "handle demo_env demo_db (GET_notes_id ''n4'') (bearer ''tok-u-alice'' None) = (json 404 (Error ''Not found''), demo_db)
   \<and> handle demo_env demo_db (GET_notes_id ''n4'') (bearer ''tok-u-carol'' None) = (json 200 (NoteJson note4), demo_db)"
proof -
  have auth: "authenticate demo_env (bearer ''tok-u-alice'' None) = Inr (claims_of alice)"
    by (simp add: authenticate_def bearer_def demo_env_def)
  have pk: "distinct (map n_id (note_rows demo_db))"
    by (simp add: demo_db_def note1_def note2_def note3_def note4_def demo_texts)
  have N: "note4 \<in> set (note_rows demo_db)" "n_tenantId note4 \<noteq> tenantId (claims_of alice)"
    by (simp_all add: demo_db_def note4_def claims_of_def alice_def demo_texts)
  have id4: "chars (n_id note4) = ''n4''" by (simp add: note4_def demo_texts)
  have "handle demo_env demo_db (GET_notes_id ''n4'') (bearer ''tok-u-carol'' None) = (json 200 (NoteJson note4), demo_db)"
    by (simp add: authenticated_def authenticate_def bearer_def demo_env_def get_notes_id_def
          note_findFirst_def demo_db_def note1_def note2_def note3_def note4_def claims_of_def carol_def
          demo_texts)
  then show ?thesis
    using get_note_tenant_isolation [OF auth pk N] id4 by simp
qed

section \<open>Plan upgrade\<close>

lemma upgrade_route:
  assumes "authenticate e req = Inr c" "role c = ADMIN"
  shows "handle e d (POST_tenants_upgrade slug) req = post_tenants_upgrade e d c slug"
  using assms by (simp add: authenticated_def requireRole_def)

lemma find_slug:
  assumes "distinct (map t_slug (tenant_rows d))" "t \<in> set (tenant_rows d)"
  shows "tenant_findFirst d (chars (t_slug t)) = Inr (Some t)"
  using find_key_member [OF assms] by (simp add: tenant_findFirst_def valid_chars chars_eq_iff)

text \<open>
  C3, as amended. \<^verbatim>\<open>POST /tenants/:slug/upgrade\<close> by a caller with role ADMIN: a slug that
  no tenant has gives 404 when the database can read it and 500 when it holds U+0000; a
  tenant with the slug whose id is not the caller's tenant id gives 403; each of the three
  leaves the state (and so every plan) unchanged. A 200 answer means that the tenant
  resolved by the slug has the caller's tenant id. Slugs are unique in the table.
\<close>

theorem upgrade_own_tenant_only:
  assumes auth: "authenticate e req = Inr c" "role c = ADMIN"
      and uniq: "distinct (map t_slug (tenant_rows d))"
  shows "(valid_text slug \<and> (\<forall>t \<in> set (tenant_rows d). chars (t_slug t) \<noteq> slug) \<longrightarrow>
            handle e d (POST_tenants_upgrade slug) req = (json 404 (Error ''Tenant not found''), d))
       \<and> (\<not> valid_text slug \<longrightarrow>
            handle e d (POST_tenants_upgrade slug) req = (json 500 (Error ''Internal server error''), d))
       \<and> (\<forall>t \<in> set (tenant_rows d). chars (t_slug t) = slug \<and> t_id t \<noteq> tenantId c \<longrightarrow>
            handle e d (POST_tenants_upgrade slug) req = (json 403 (Error ''Cannot upgrade another tenant''), d))
       \<and> (status (fst (handle e d (POST_tenants_upgrade slug) req)) = 200 \<longrightarrow>
            (\<exists>t \<in> set (tenant_rows d). chars (t_slug t) = slug \<and> t_id t = tenantId c))"
proof -
  note r = upgrade_route [OF auth]
  have a: "valid_text slug \<and> (\<forall>t \<in> set (tenant_rows d). chars (t_slug t) \<noteq> slug) \<longrightarrow>
            handle e d (POST_tenants_upgrade slug) req = (json 404 (Error ''Tenant not found''), d)"
  proof
    assume "valid_text slug \<and> (\<forall>t \<in> set (tenant_rows d). chars (t_slug t) \<noteq> slug)"
    then have "tenant_findFirst d slug = Inr None"
      by (simp add: tenant_findFirst_def find_None_iff)
    then show "handle e d (POST_tenants_upgrade slug) req = (json 404 (Error ''Tenant not found''), d)"
      unfolding r by (simp add: post_tenants_upgrade_def)
  qed
  have z: "\<not> valid_text slug \<longrightarrow>
            handle e d (POST_tenants_upgrade slug) req = (json 500 (Error ''Internal server error''), d)"
    unfolding r by (simp add: post_tenants_upgrade_def tenant_findFirst_def internal_error_def)
  have b: "\<forall>t \<in> set (tenant_rows d). chars (t_slug t) = slug \<and> t_id t \<noteq> tenantId c \<longrightarrow>
            handle e d (POST_tenants_upgrade slug) req = (json 403 (Error ''Cannot upgrade another tenant''), d)"
  proof (intro ballI impI)
    fix t assume t: "t \<in> set (tenant_rows d)" and h: "chars (t_slug t) = slug \<and> t_id t \<noteq> tenantId c"
    have "tenant_findFirst d slug = Inr (Some t)"
      using find_slug [OF uniq t] h by simp
    then show "handle e d (POST_tenants_upgrade slug) req = (json 403 (Error ''Cannot upgrade another tenant''), d)"
      unfolding r using h by (simp add: post_tenants_upgrade_def)
  qed
  have c: "status (fst (handle e d (POST_tenants_upgrade slug) req)) = 200 \<longrightarrow>
            (\<exists>t \<in> set (tenant_rows d). chars (t_slug t) = slug \<and> t_id t = tenantId c)"
    unfolding r
    by (auto simp: post_tenants_upgrade_def tenant_findFirst_def json_def internal_error_def
                   find_Some_iff tenant_update_def Let_def
             split: option.splits if_splits sum.splits)
  from a z b c show ?thesis by blast
qed

theorem upgrade_own_tenant_only_witness:
  "handle demo_env demo_db (POST_tenants_upgrade ''initech'') (bearer ''tok-u-alice'' None)
     = (json 404 (Error ''Tenant not found''), demo_db)
   \<and> handle demo_env demo_db (POST_tenants_upgrade (''init'' @ [CHR 0x00])) (bearer ''tok-u-alice'' None)
     = (json 500 (Error ''Internal server error''), demo_db)
   \<and> handle demo_env demo_db (POST_tenants_upgrade ''globex'') (bearer ''tok-u-alice'' None)
     = (json 403 (Error ''Cannot upgrade another tenant''), demo_db)
   \<and> status (fst (handle demo_env demo_db (POST_tenants_upgrade ''acme'') (bearer ''tok-u-alice'' None))) = 200"
proof -
  have auth: "authenticate demo_env (bearer ''tok-u-alice'' None) = Inr (claims_of alice)"
      "role (claims_of alice) = ADMIN"
    by (simp_all add: authenticate_def bearer_def demo_env_def claims_of_def alice_def)
  have uniq: "distinct (map t_slug (tenant_rows demo_db))"
    by (simp add: demo_db_def acme_def globex_def demo_texts)
  have ok: "status (fst (handle demo_env demo_db (POST_tenants_upgrade ''acme'') (bearer ''tok-u-alice'' None))) = 200"
    unfolding upgrade_route [OF auth]
    by (simp add: post_tenants_upgrade_def tenant_findFirst_def tenant_update_def
          demo_db_def acme_def globex_def claims_of_def alice_def json_def demo_texts)
  have facts: "valid_text ''initech''" "\<not> valid_text (''init'' @ [CHR 0x00])"
      "\<forall>t \<in> set (tenant_rows demo_db). chars (t_slug t) \<noteq> ''initech''"
      "globex \<in> set (tenant_rows demo_db)" "chars (t_slug globex) = ''globex''"
      "t_id globex \<noteq> tenantId (claims_of alice)"
    by (simp_all add: demo_db_def acme_def globex_def claims_of_def alice_def demo_texts)
  show ?thesis
    using upgrade_own_tenant_only [OF auth uniq, of "''initech''"]
          upgrade_own_tenant_only [OF auth uniq, of "''init'' @ [CHR 0x00]"]
          upgrade_own_tenant_only [OF auth uniq, of "''globex''"] ok facts
    by blast
qed

text \<open>
  Against C3 as first stated (404 for every slug that no tenant has): Alice, ADMIN of Acme,
  sends the slug made of the one character U+0000. No tenant has it, the lookup throws, and
  the answer is 500.
\<close>

theorem upgrade_nul_slug_counterexample:
  "authenticate demo_env (bearer ''tok-u-alice'' None) = Inr (claims_of alice)
   \<and> role (claims_of alice) = ADMIN
   \<and> tenant_rows demo_db = [acme, globex]
   \<and> chars (t_slug acme) \<noteq> [CHR 0x00] \<and> chars (t_slug globex) \<noteq> [CHR 0x00]
   \<and> handle demo_env demo_db (POST_tenants_upgrade [CHR 0x00]) (bearer ''tok-u-alice'' None)
       = (json 500 (Error ''Internal server error''), demo_db)"
  by (simp add: authenticated_def authenticate_def requireRole_def bearer_def
        post_tenants_upgrade_def tenant_findFirst_def internal_error_def
        demo_env_def demo_db_def acme_def globex_def claims_of_def alice_def demo_texts)

text \<open>
  C4. The upgrade is idempotent. For an ADMIN of a tenant on the FREE plan, the first call
  with the tenant's slug answers 200 \<open>Upgraded to PRO\<close> with the tenant row whose plan is now
  PRO; in the state it leaves, every further call by an ADMIN of that tenant answers 200
  \<open>Already PRO\<close> with the same row and leaves that state as it is. Ids and slugs are unique
  in the table.
\<close>

theorem upgrade_idempotent:
  assumes auth: "authenticate e1 req1 = Inr c" "role c = ADMIN"
      and pk: "distinct (map t_id (tenant_rows d))"
      and uniq: "distinct (map t_slug (tenant_rows d))"
      and own: "t \<in> set (tenant_rows d)" "chars (t_slug t) = slug" "t_id t = tenantId c" "t_plan t = FREE"
  shows "\<exists>d1. handle e1 d (POST_tenants_upgrade slug) req1
               = (json 200 (UpgradeJson ''Upgraded to PRO'' (t\<lparr>t_plan := PRO, t_updatedAt := now e1\<rparr>)), d1)
          \<and> tenant_findFirst d1 slug = Inr (Some (t\<lparr>t_plan := PRO, t_updatedAt := now e1\<rparr>))
          \<and> (\<forall>e2 req2 c2. authenticate e2 req2 = Inr c2 \<and> role c2 = ADMIN \<and> tenantId c2 = tenantId c \<longrightarrow>
                handle e2 d1 (POST_tenants_upgrade slug) req2
                  = (json 200 (UpgradeJson ''Already PRO'' (t\<lparr>t_plan := PRO, t_updatedAt := now e1\<rparr>)), d1))"
proof -
  let ?t' = "t\<lparr>t_plan := PRO, t_updatedAt := now e1\<rparr>"
  let ?f = "\<lambda>x. if t_id x = t_id t then x\<lparr>t_plan := PRO, t_updatedAt := now e1\<rparr> else x"
  let ?d1 = "d\<lparr>tenant_rows := map ?f (tenant_rows d)\<rparr>"
  have by_slug: "tenant_findFirst d slug = Inr (Some t)"
    using find_slug [OF uniq own(1)] own(2) by simp
  have slug: "valid_text slug"
    using own(2) valid_chars [of "t_slug t"] by simp
  have by_id: "find (\<lambda>x. t_id x = t_id t) (tenant_rows d) = Some t"
    using find_key_member [OF pk own(1)] .
  have upd: "tenant_update e1 d (t_id t) PRO = Inr (?t', ?d1)"
    using by_id by (simp add: tenant_update_def)
  have first: "handle e1 d (POST_tenants_upgrade slug) req1
                 = (json 200 (UpgradeJson ''Upgraded to PRO'' ?t'), ?d1)"
    unfolding upgrade_route [OF auth]
    using by_slug own(3,4) upd by (simp add: post_tenants_upgrade_def)
  have "find (\<lambda>x. chars (t_slug x) = slug) (map ?f (tenant_rows d))
          = map_option ?f (find (\<lambda>x. chars (t_slug x) = slug) (tenant_rows d))"
    by (rule find_map_preserve) simp
  then have after: "tenant_findFirst ?d1 slug = Inr (Some ?t')"
    using by_slug slug by (simp add: tenant_findFirst_def)
  have again: "\<forall>e2 req2 c2. authenticate e2 req2 = Inr c2 \<and> role c2 = ADMIN \<and> tenantId c2 = tenantId c \<longrightarrow>
                handle e2 ?d1 (POST_tenants_upgrade slug) req2
                  = (json 200 (UpgradeJson ''Already PRO'' ?t'), ?d1)"
  proof (intro allI impI)
    fix e2 req2 c2
    assume h: "authenticate e2 req2 = Inr c2 \<and> role c2 = ADMIN \<and> tenantId c2 = tenantId c"
    then have "handle e2 ?d1 (POST_tenants_upgrade slug) req2 = post_tenants_upgrade e2 ?d1 c2 slug"
      using upgrade_route by blast
    then show "handle e2 ?d1 (POST_tenants_upgrade slug) req2
                  = (json 200 (UpgradeJson ''Already PRO'' ?t'), ?d1)"
      using after h own(3) by (simp add: post_tenants_upgrade_def)
  qed
  from first after again show ?thesis by blast
qed

theorem upgrade_idempotent_witness:
  "\<exists>d1. handle demo_env demo_db (POST_tenants_upgrade ''acme'') (bearer ''tok-u-alice'' None)
               = (json 200 (UpgradeJson ''Upgraded to PRO'' (acme\<lparr>t_plan := PRO, t_updatedAt := 100\<rparr>)), d1)
          \<and> tenant_findFirst d1 ''acme'' = Inr (Some (acme\<lparr>t_plan := PRO, t_updatedAt := 100\<rparr>))
          \<and> handle (demo_env\<lparr>now := 200\<rparr>) d1 (POST_tenants_upgrade ''acme'') (bearer ''tok-u-alice'' None)
                  = (json 200 (UpgradeJson ''Already PRO'' (acme\<lparr>t_plan := PRO, t_updatedAt := 100\<rparr>)), d1)"
proof -
  have auth: "authenticate demo_env (bearer ''tok-u-alice'' None) = Inr (claims_of alice)"
      "role (claims_of alice) = ADMIN"
    by (simp_all add: authenticate_def bearer_def demo_env_def claims_of_def alice_def)
  have auth2: "authenticate (demo_env\<lparr>now := 200\<rparr>) (bearer ''tok-u-alice'' None) = Inr (claims_of alice)"
    by (simp add: authenticate_def bearer_def demo_env_def)
  have pk: "distinct (map t_id (tenant_rows demo_db))"
    by (simp add: demo_db_def acme_def globex_def demo_texts)
  have uniq: "distinct (map t_slug (tenant_rows demo_db))"
    by (simp add: demo_db_def acme_def globex_def demo_texts)
  have own: "acme \<in> set (tenant_rows demo_db)" "chars (t_slug acme) = ''acme''"
      "t_id acme = tenantId (claims_of alice)" "t_plan acme = FREE"
    by (simp_all add: demo_db_def acme_def claims_of_def alice_def demo_texts)
  have n: "now demo_env = 100" by (simp add: demo_env_def)
  show ?thesis
    using upgrade_idempotent [OF auth pk uniq own] auth2 auth(2) unfolding n by blast
qed

section \<open>Note creation\<close>

lemma notes_route:
  assumes "authenticate e req = Inr c"
  shows "handle e d POST_notes req = post_notes e d c req"
  using assms by (simp add: authenticated_def)

text \<open>
  On the PRO plan the answer is that of the insert alone: 201 when the database accepts
  the row, 500 when it does not.
\<close>

lemma post_notes_pro:
  assumes "field req ''title'' = Some (JString title)" "title \<noteq> []"
      and "field req ''content'' = Some (JString content)" "content \<noteq> []"
      and "tenant_findUnique d (tenantId c) = Some t" "t_plan t = PRO"
  shows "post_notes e d c req =
           (if valid_text title \<and> valid_text content \<and> cuid e \<notin> set (map n_id (note_rows d))
               \<and> userId c \<in> set (map u_id (user_rows d))
            then (json 201 (NoteJson \<lparr>n_id = cuid e, n_title = Text title, n_content = Text content,
                                    n_tenantId = tenantId c, n_ownerId = Some (userId c),
                                    n_createdAt = now e, n_updatedAt = now e\<rparr>),
                  d\<lparr>note_rows := note_rows d @ [\<lparr>n_id = cuid e, n_title = Text title, n_content = Text content,
                                    n_tenantId = tenantId c, n_ownerId = Some (userId c),
                                    n_createdAt = now e, n_updatedAt = now e\<rparr>]\<rparr>)
            else (json 500 (Error ''Internal server error''), d))"
proof -
  have "t_id t = tenantId c \<and> t \<in> set (tenant_rows d)"
    using assms(5) by (auto simp: tenant_findUnique_def find_Some_iff)
  then have "tenantId c \<in> set (map t_id (tenant_rows d))"
    by force
  then show ?thesis
    using assms by (simp add: post_notes_def note_create_def Let_def internal_error_def)
qed

lemma upgrade_leaves_pro:
  assumes pk: "distinct (map t_id (tenant_rows d))"
      and uniq: "distinct (map t_slug (tenant_rows d))"
      and own: "t \<in> set (tenant_rows d)" "t_id t = tenantId a"
  shows "\<exists>t'. tenant_findUnique (snd (post_tenants_upgrade e d a (chars (t_slug t)))) (tenantId a) = Some t'
              \<and> t_plan t' = PRO"
    and "note_rows (snd (post_tenants_upgrade e d a (chars (t_slug t)))) = note_rows d"
    and "user_rows (snd (post_tenants_upgrade e d a (chars (t_slug t)))) = user_rows d"
proof -
  let ?f = "\<lambda>x. if t_id x = t_id t then x\<lparr>t_plan := PRO, t_updatedAt := now e\<rparr> else x"
  have by_slug: "tenant_findFirst d (chars (t_slug t)) = Inr (Some t)"
    using find_slug [OF uniq own(1)] .
  have by_id: "find (\<lambda>x. t_id x = t_id t) (tenant_rows d) = Some t"
    using find_key_member [OF pk own(1)] .
  have m: "find (\<lambda>x. t_id x = t_id t) (map ?f (tenant_rows d))
             = map_option ?f (find (\<lambda>x. t_id x = t_id t) (tenant_rows d))"
    by (rule find_map_preserve) simp
  have res: "snd (post_tenants_upgrade e d a (chars (t_slug t)))
               = (if t_plan t = PRO then d else d\<lparr>tenant_rows := map ?f (tenant_rows d)\<rparr>)"
    using by_slug by_id own(2) by (simp add: post_tenants_upgrade_def tenant_update_def)
  show "\<exists>t'. tenant_findUnique (snd (post_tenants_upgrade e d a (chars (t_slug t)))) (tenantId a) = Some t'
              \<and> t_plan t' = PRO"
    using res m by_id own(2) by (cases "t_plan t") (simp_all add: tenant_findUnique_def)
  show "note_rows (snd (post_tenants_upgrade e d a (chars (t_slug t)))) = note_rows d"
    using res by simp
  show "user_rows (snd (post_tenants_upgrade e d a (chars (t_slug t)))) = user_rows d"
    using res by simp
qed

text \<open>
  C2, as amended. An authenticated \<^verbatim>\<open>POST /notes\<close> whose title and content are non-empty
  strings, for a caller whose tenant row exists. On the FREE plan with three or more notes of
  the tenant the answer is 402 and the state is unchanged. On the PRO plan no count is taken
  and the insert is attempted however many notes there are: the answer is 201 with the new
  note appended when the database accepts the row, that is when title and content hold no
  U+0000, the generated id is new and the \<^verbatim>\<open>userId\<close> of the token is the id of a stored user;
  otherwise it is 500 and the state is unchanged. The same holds in the state left by an
  ADMIN's upgrade of the tenant, whatever its plan was before.
\<close>

theorem post_notes_plan_limit:
  assumes auth: "authenticate e req = Inr c"
      and title: "field req ''title'' = Some (JString title)" "title \<noteq> []"
      and content: "field req ''content'' = Some (JString content)" "content \<noteq> []"
      and pk: "distinct (map t_id (tenant_rows d))"
      and t: "t \<in> set (tenant_rows d)" "t_id t = tenantId c"
  shows "(t_plan t = FREE \<and> 3 \<le> note_count d (tenantId c) \<longrightarrow>
            handle e d POST_notes req = (json 402 (Error ''FREE plan limit reached. Upgrade to PRO.''), d))
       \<and> (t_plan t = PRO \<longrightarrow>
            handle e d POST_notes req =
              (if valid_text title \<and> valid_text content \<and> cuid e \<notin> set (map n_id (note_rows d))
               \<and> userId c \<in> set (map u_id (user_rows d))
               then (json 201 (NoteJson \<lparr>n_id = cuid e, n_title = Text title, n_content = Text content,
                                    n_tenantId = tenantId c, n_ownerId = Some (userId c),
                                    n_createdAt = now e, n_updatedAt = now e\<rparr>),
                     d\<lparr>note_rows := note_rows d @ [\<lparr>n_id = cuid e, n_title = Text title, n_content = Text content,
                                    n_tenantId = tenantId c, n_ownerId = Some (userId c),
                                    n_createdAt = now e, n_updatedAt = now e\<rparr>]\<rparr>)
               else (json 500 (Error ''Internal server error''), d)))
       \<and> (\<forall>e1 req1 a. authenticate e1 req1 = Inr a \<and> role a = ADMIN \<and> tenantId a = tenantId c
               \<and> distinct (map t_slug (tenant_rows d)) \<longrightarrow>
            status (fst (handle e (snd (handle e1 d (POST_tenants_upgrade (chars (t_slug t))) req1)) POST_notes req))
              = (if valid_text title \<and> valid_text content \<and> cuid e \<notin> set (map n_id (note_rows d))
               \<and> userId c \<in> set (map u_id (user_rows d)) then 201 else 500))"
proof -
  have by_id: "tenant_findUnique d (tenantId c) = Some t"
    using find_key_member [OF pk t(1)] t(2) by (simp add: tenant_findUnique_def)
  have free: "t_plan t = FREE \<and> 3 \<le> note_count d (tenantId c) \<longrightarrow>
            handle e d POST_notes req = (json 402 (Error ''FREE plan limit reached. Upgrade to PRO.''), d)"
    unfolding notes_route [OF auth]
    using title content by_id t(2) by (simp add: post_notes_def)
  have pro: "t_plan t = PRO \<longrightarrow>
            handle e d POST_notes req =
              (if valid_text title \<and> valid_text content \<and> cuid e \<notin> set (map n_id (note_rows d))
               \<and> userId c \<in> set (map u_id (user_rows d))
               then (json 201 (NoteJson \<lparr>n_id = cuid e, n_title = Text title, n_content = Text content,
                                    n_tenantId = tenantId c, n_ownerId = Some (userId c),
                                    n_createdAt = now e, n_updatedAt = now e\<rparr>),
                     d\<lparr>note_rows := note_rows d @ [\<lparr>n_id = cuid e, n_title = Text title, n_content = Text content,
                                    n_tenantId = tenantId c, n_ownerId = Some (userId c),
                                    n_createdAt = now e, n_updatedAt = now e\<rparr>]\<rparr>)
               else (json 500 (Error ''Internal server error''), d))"
    unfolding notes_route [OF auth]
    using post_notes_pro [OF title content by_id] by blast
  have upgraded: "\<forall>e1 req1 a. authenticate e1 req1 = Inr a \<and> role a = ADMIN \<and> tenantId a = tenantId c
               \<and> distinct (map t_slug (tenant_rows d)) \<longrightarrow>
            status (fst (handle e (snd (handle e1 d (POST_tenants_upgrade (chars (t_slug t))) req1)) POST_notes req))
              = (if valid_text title \<and> valid_text content \<and> cuid e \<notin> set (map n_id (note_rows d))
               \<and> userId c \<in> set (map u_id (user_rows d)) then 201 else 500)"
  proof (intro allI impI)
    fix e1 req1 a
    assume h: "authenticate e1 req1 = Inr a \<and> role a = ADMIN \<and> tenantId a = tenantId c
               \<and> distinct (map t_slug (tenant_rows d))"
    let ?d1 = "snd (post_tenants_upgrade e1 d a (chars (t_slug t)))"
    have r: "handle e1 d (POST_tenants_upgrade (chars (t_slug t))) req1
               = post_tenants_upgrade e1 d a (chars (t_slug t))"
      using h upgrade_route by blast
    have own: "t_id t = tenantId a" using h t(2) by simp
    have uniq: "distinct (map t_slug (tenant_rows d))" using h by simp
    obtain t' where t': "tenant_findUnique ?d1 (tenantId c) = Some t'" "t_plan t' = PRO"
      using upgrade_leaves_pro(1) [OF pk uniq t(1) own, of e1] h by auto
    have same: "note_rows ?d1 = note_rows d" "user_rows ?d1 = user_rows d"
      using upgrade_leaves_pro(2,3) [OF pk uniq t(1) own] by simp_all
    show "status (fst (handle e (snd (handle e1 d (POST_tenants_upgrade (chars (t_slug t))) req1)) POST_notes req))
              = (if valid_text title \<and> valid_text content \<and> cuid e \<notin> set (map n_id (note_rows d))
               \<and> userId c \<in> set (map u_id (user_rows d)) then 201 else 500)"
      unfolding r notes_route [OF auth] post_notes_pro [OF title content t'] same
      by (simp add: json_def)
  qed
  from free pro upgraded show ?thesis by blast
qed


theorem post_notes_plan_limit_witness:
  "handle demo_env demo_db POST_notes (bearer ''tok-u-bob'' (note_body ''Fourth'' ''One too many''))
     = (json 402 (Error ''FREE plan limit reached. Upgrade to PRO.''), demo_db)
   \<and> handle demo_env demo_db POST_notes (bearer ''tok-u-carol'' (note_body ''Second'' ''No limit''))
     = (json 201 (NoteJson \<lparr>n_id = Text ''n5'', n_title = Text ''Second'', n_content = Text ''No limit'',
                           n_tenantId = Text ''t-globex'', n_ownerId = Some (Text ''u-carol''),
                           n_createdAt = 100, n_updatedAt = 100\<rparr>),
        demo_db\<lparr>note_rows := [note1, note2, note3, note4,
                   \<lparr>n_id = Text ''n5'', n_title = Text ''Second'', n_content = Text ''No limit'',
                           n_tenantId = Text ''t-globex'', n_ownerId = Some (Text ''u-carol''),
                           n_createdAt = 100, n_updatedAt = 100\<rparr>]\<rparr>)
   \<and> handle demo_env demo_db POST_notes (bearer ''tok-u-dave'' (note_body ''Second'' ''No limit''))
     = (json 500 (Error ''Internal server error''), demo_db)
   \<and> status (fst (handle demo_env
                (snd (handle demo_env demo_db (POST_tenants_upgrade ''acme'') (bearer ''tok-u-alice'' None)))
                POST_notes (bearer ''tok-u-bob'' (note_body ''Fourth'' ''One too many'')))) = 201"
proof -
  let ?bob = "bearer ''tok-u-bob'' (note_body ''Fourth'' ''One too many'')"
  let ?carol = "bearer ''tok-u-carol'' (note_body ''Second'' ''No limit'')"
  let ?dave = "bearer ''tok-u-dave'' (note_body ''Second'' ''No limit'')"
  have bob_auth: "authenticate demo_env ?bob = Inr (claims_of bob)"
    by (simp add: authenticate_def bearer_def demo_env_def)
  have carol_auth: "authenticate demo_env ?carol = Inr (claims_of carol)"
    by (simp add: authenticate_def bearer_def demo_env_def)
  have dave_auth: "authenticate demo_env ?dave = Inr (claims_of dave)"
    by (simp add: authenticate_def bearer_def demo_env_def)
  have alice_auth: "authenticate demo_env (bearer ''tok-u-alice'' None) = Inr (claims_of alice)"
    by (simp add: authenticate_def bearer_def demo_env_def)
  have bob_body: "field ?bob ''title'' = Some (JString ''Fourth'')" "''Fourth'' \<noteq> []"
      "field ?bob ''content'' = Some (JString ''One too many'')" "''One too many'' \<noteq> []"
    by (simp_all add: field_def bearer_def note_body_def)
  have carol_body: "field ?carol ''title'' = Some (JString ''Second'')" "''Second'' \<noteq> []"
      "field ?carol ''content'' = Some (JString ''No limit'')" "''No limit'' \<noteq> []"
    by (simp_all add: field_def bearer_def note_body_def)
  have dave_body: "field ?dave ''title'' = Some (JString ''Second'')" "''Second'' \<noteq> []"
      "field ?dave ''content'' = Some (JString ''No limit'')" "''No limit'' \<noteq> []"
    by (simp_all add: field_def bearer_def note_body_def)
  have pk: "distinct (map t_id (tenant_rows demo_db))"
    by (simp add: demo_db_def acme_def globex_def demo_texts)
  have acme: "acme \<in> set (tenant_rows demo_db)" "t_id acme = tenantId (claims_of bob)"
    by (simp_all add: demo_db_def acme_def claims_of_def bob_def)
  have globex: "globex \<in> set (tenant_rows demo_db)" "t_id globex = tenantId (claims_of carol)"
    by (simp_all add: demo_db_def globex_def claims_of_def carol_def)
  have globex': "globex \<in> set (tenant_rows demo_db)" "t_id globex = tenantId (claims_of dave)"
    by (simp_all add: demo_db_def globex_def claims_of_def dave_def)
  have facts: "t_plan acme = FREE" "3 \<le> note_count demo_db (tenantId (claims_of bob))"
      "t_plan globex = PRO" "cuid demo_env \<notin> set (map n_id (note_rows demo_db))"
      "userId (claims_of carol) \<in> set (map u_id (user_rows demo_db))"
      "userId (claims_of bob) \<in> set (map u_id (user_rows demo_db))"
      "userId (claims_of dave) \<notin> set (map u_id (user_rows demo_db))"
      "role (claims_of alice) = ADMIN" "tenantId (claims_of alice) = tenantId (claims_of bob)"
      "distinct (map t_slug (tenant_rows demo_db))" "chars (t_slug acme) = ''acme''"
      "valid_text ''Fourth''" "valid_text ''One too many''" "valid_text ''Second''" "valid_text ''No limit''"
    by (simp_all add: note_count_def demo_db_def demo_env_def acme_def globex_def claims_of_def
          alice_def bob_def carol_def dave_def note1_def note2_def note3_def note4_def demo_texts)
  have vals: "cuid demo_env = Text ''n5''" "now demo_env = 100" "tenantId (claims_of carol) = Text ''t-globex''"
      "userId (claims_of carol) = Text ''u-carol''" "note_rows demo_db = [note1, note2, note3, note4]"
    by (simp_all add: demo_env_def demo_db_def claims_of_def carol_def)
  note bob_case = post_notes_plan_limit [OF bob_auth bob_body pk acme]
  note carol_case = post_notes_plan_limit [OF carol_auth carol_body pk globex]
  note dave_case = post_notes_plan_limit [OF dave_auth dave_body pk globex']
  have one: "handle demo_env demo_db POST_notes ?bob
     = (json 402 (Error ''FREE plan limit reached. Upgrade to PRO.''), demo_db)"
    using bob_case facts by blast
  have two: "handle demo_env demo_db POST_notes ?carol
     = (json 201 (NoteJson \<lparr>n_id = Text ''n5'', n_title = Text ''Second'', n_content = Text ''No limit'',
                           n_tenantId = Text ''t-globex'', n_ownerId = Some (Text ''u-carol''),
                           n_createdAt = 100, n_updatedAt = 100\<rparr>),
        demo_db\<lparr>note_rows := [note1, note2, note3, note4,
                   \<lparr>n_id = Text ''n5'', n_title = Text ''Second'', n_content = Text ''No limit'',
                           n_tenantId = Text ''t-globex'', n_ownerId = Some (Text ''u-carol''),
                           n_createdAt = 100, n_updatedAt = 100\<rparr>]\<rparr>)"
    using carol_case [THEN conjunct2, THEN conjunct1] facts vals by simp
  have three: "handle demo_env demo_db POST_notes ?dave = (json 500 (Error ''Internal server error''), demo_db)"
    using dave_case [THEN conjunct2, THEN conjunct1] facts by simp
  have four: "status (fst (handle demo_env
                (snd (handle demo_env demo_db (POST_tenants_upgrade ''acme'') (bearer ''tok-u-alice'' None)))
                POST_notes ?bob)) = 201"
    using bob_case [THEN conjunct2, THEN conjunct2, rule_format, of demo_env "bearer ''tok-u-alice'' None" "claims_of alice"]
          alice_auth facts by simp
  from one two three four show ?thesis by blast
qed

text \<open>
  Against C2 as first stated (201 for every authenticated request on the PRO plan with a
  non-empty title and content). Dave's token verifies and his tenant Globex is on the PRO
  plan, but his user row is gone: the insert breaks the foreign key of \<^verbatim>\<open>"ownerId"\<close> and the
  answer is 500. Carol's title holds U+0000: the database rejects it and the answer is 500.
\<close>

theorem post_notes_rejected_insert_counterexample:
  "authenticate demo_env (bearer ''tok-u-dave'' (note_body ''Second'' ''No limit'')) = Inr (claims_of dave)
   \<and> tenant_findUnique demo_db (tenantId (claims_of dave)) = Some globex
   \<and> t_plan globex = PRO
   \<and> handle demo_env demo_db POST_notes (bearer ''tok-u-dave'' (note_body ''Second'' ''No limit''))
       = (json 500 (Error ''Internal server error''), demo_db)
   \<and> authenticate demo_env (bearer ''tok-u-carol'' (note_body (''Sec'' @ [CHR 0x00]) ''No limit''))
       = Inr (claims_of carol)
   \<and> tenant_findUnique demo_db (tenantId (claims_of carol)) = Some globex
   \<and> handle demo_env demo_db POST_notes (bearer ''tok-u-carol'' (note_body (''Sec'' @ [CHR 0x00]) ''No limit''))
       = (json 500 (Error ''Internal server error''), demo_db)"
  by (simp add: authenticated_def authenticate_def bearer_def note_body_def field_def
        post_notes_def note_create_def tenant_findUnique_def internal_error_def
        demo_env_def demo_db_def acme_def globex_def claims_of_def alice_def bob_def carol_def dave_def
        note1_def note2_def note3_def note4_def demo_texts)

lemma authenticate_body: "authenticate e (req\<lparr>body := b\<rparr>) = authenticate e req"
  by (simp add: authenticate_def)

text \<open>
  C7. Every \<^verbatim>\<open>POST /notes\<close> answered 201 has appended exactly one note to the table, the
  one returned in the body; its \<^verbatim>\<open>tenantId\<close> and \<^verbatim>\<open>ownerId\<close> are the \<^verbatim>\<open>tenantId\<close> and \<^verbatim>\<open>userId\<close>
  of the caller's token and its title and content are the body's. The handler reads nothing
  else from the body: setting, changing or removing \<^verbatim>\<open>tenantId\<close> and \<^verbatim>\<open>ownerId\<close> there changes
  neither the response nor the state.
\<close>

theorem post_notes_binds_identity:
  assumes auth: "authenticate e req = Inr c"
      and ok: "status (fst (handle e d POST_notes req)) = 201"
  shows "(\<exists>n. handle e d POST_notes req = (json 201 (NoteJson n), d\<lparr>note_rows := note_rows d @ [n]\<rparr>)
            \<and> n_tenantId n = tenantId c \<and> n_ownerId n = Some (userId c)
            \<and> field req ''title'' = Some (JString (chars (n_title n)))
            \<and> field req ''content'' = Some (JString (chars (n_content n))))
       \<and> (\<forall>b x y. body req = Some b \<longrightarrow>
            handle e d POST_notes (req\<lparr>body := Some (b(''tenantId'' := x, ''ownerId'' := y))\<rparr>)
              = handle e d POST_notes req)"
proof -
  have created: "\<exists>n. handle e d POST_notes req = (json 201 (NoteJson n), d\<lparr>note_rows := note_rows d @ [n]\<rparr>)
            \<and> n_tenantId n = tenantId c \<and> n_ownerId n = Some (userId c)
            \<and> field req ''title'' = Some (JString (chars (n_title n)))
            \<and> field req ''content'' = Some (JString (chars (n_content n)))"
    using ok unfolding notes_route [OF auth]
    by (auto simp: post_notes_def note_create_def json_def internal_error_def Let_def chars_Text
             split: option.splits if_splits jsval.splits)
  have ignored: "\<forall>b x y. body req = Some b \<longrightarrow>
            handle e d POST_notes (req\<lparr>body := Some (b(''tenantId'' := x, ''ownerId'' := y))\<rparr>)
              = handle e d POST_notes req"
  proof (intro allI impI)
    fix b x y assume b: "body req = Some b"
    let ?req' = "req\<lparr>body := Some (b(''tenantId'' := x, ''ownerId'' := y))\<rparr>"
    have f: "field ?req' ''title'' = field req ''title''" "field ?req' ''content'' = field req ''content''"
      using b by (simp_all add: field_def)
    have "authenticate e ?req' = Inr c"
      using auth by (simp add: authenticate_body)
    then have "handle e d POST_notes ?req' = post_notes e d c ?req'"
      by (rule notes_route)
    also have "\<dots> = post_notes e d c req"
      by (simp only: post_notes_def f)
    finally show "handle e d POST_notes ?req' = handle e d POST_notes req"
      by (simp only: notes_route [OF auth])
  qed
  from created ignored show ?thesis by blast
qed

theorem post_notes_binds_identity_witness:
  "handle demo_env demo_db POST_notes
      (bearer ''tok-u-carol'' (Some [''title'' \<mapsto> JString ''Second'', ''content'' \<mapsto> JString ''No limit'',
                                    ''tenantId'' \<mapsto> JString ''t-acme'', ''ownerId'' \<mapsto> JString ''u-alice'']))
     = (json 201 (NoteJson \<lparr>n_id = Text ''n5'', n_title = Text ''Second'', n_content = Text ''No limit'',
                           n_tenantId = Text ''t-globex'', n_ownerId = Some (Text ''u-carol''),
                           n_createdAt = 100, n_updatedAt = 100\<rparr>),
        demo_db\<lparr>note_rows := [note1, note2, note3, note4,
                   \<lparr>n_id = Text ''n5'', n_title = Text ''Second'', n_content = Text ''No limit'',
                           n_tenantId = Text ''t-globex'', n_ownerId = Some (Text ''u-carol''),
                           n_createdAt = 100, n_updatedAt = 100\<rparr>]\<rparr>)"
proof -
  let ?req = "bearer ''tok-u-carol'' (note_body ''Second'' ''No limit'')"
  have auth: "authenticate demo_env ?req = Inr (claims_of carol)"
    by (simp add: authenticate_def bearer_def demo_env_def)
  have plain: "handle demo_env demo_db POST_notes ?req
     = (json 201 (NoteJson \<lparr>n_id = Text ''n5'', n_title = Text ''Second'', n_content = Text ''No limit'',
                           n_tenantId = Text ''t-globex'', n_ownerId = Some (Text ''u-carol''),
                           n_createdAt = 100, n_updatedAt = 100\<rparr>),
        demo_db\<lparr>note_rows := [note1, note2, note3, note4,
                   \<lparr>n_id = Text ''n5'', n_title = Text ''Second'', n_content = Text ''No limit'',
                           n_tenantId = Text ''t-globex'', n_ownerId = Some (Text ''u-carol''),
                           n_createdAt = 100, n_updatedAt = 100\<rparr>]\<rparr>)"
    unfolding notes_route [OF auth]
    by (simp add: post_notes_def note_create_def Let_def field_def bearer_def note_body_def tenant_findUnique_def
          demo_db_def demo_env_def acme_def globex_def claims_of_def alice_def bob_def carol_def
          note1_def note2_def note3_def note4_def demo_texts)
  then have ok: "status (fst (handle demo_env demo_db POST_notes ?req)) = 201"
    by (simp add: json_def)
  have b: "body ?req = Some [''title'' \<mapsto> JString ''Second'', ''content'' \<mapsto> JString ''No limit'']"
    by (simp add: bearer_def note_body_def)
  have r: "?req\<lparr>body := Some ([''title'' \<mapsto> JString ''Second'', ''content'' \<mapsto> JString ''No limit'']
                              (''tenantId'' := Some (JString ''t-acme''), ''ownerId'' := Some (JString ''u-alice'')))\<rparr>
           = bearer ''tok-u-carol'' (Some [''title'' \<mapsto> JString ''Second'', ''content'' \<mapsto> JString ''No limit'',
                                    ''tenantId'' \<mapsto> JString ''t-acme'', ''ownerId'' \<mapsto> JString ''u-alice''])"
    by (simp add: bearer_def)
  show ?thesis
    using post_notes_binds_identity [OF auth ok] b plain unfolding r [symmetric] by metis
qed

section \<open>Login\<close>

lemma find_map_email:
  assumes "\<And>x. u_email (f x) = u_email x"
  shows "find (\<lambda>x. chars (u_email x) = v) (map f xs) = map_option f (find (\<lambda>x. chars (u_email x) = v) xs)"
  using assms by (induction xs) auto

text \<open>
  With an email and a password that are non-empty strings, the two failures of a login get
  one answer: 401 \<open>Invalid credentials\<close>, whether no user has the email or the user with the
  email has a hash that the password does not match. Emails are unique in the table.
\<close>

lemma login_string_credentials:
  assumes email: "field req ''email'' = Some (JString em)" "em \<noteq> []" "valid_text em"
      and pw: "field req ''password'' = Some (JString pw)" "pw \<noteq> []"
      and uniq: "distinct (map u_email (user_rows d))"
  shows "((\<forall>u \<in> set (user_rows d). chars (u_email u) \<noteq> em) \<longrightarrow>
            handle e d POST_login req = (json 401 (Error ''Invalid credentials''), d))
       \<and> (\<forall>u \<in> set (user_rows d). chars (u_email u) = em \<and> \<not> bcrypt_compare e pw (u_password u) \<longrightarrow>
            handle e d POST_login req = (json 401 (Error ''Invalid credentials''), d))"
proof -
  have unknown: "(\<forall>u \<in> set (user_rows d). chars (u_email u) \<noteq> em) \<longrightarrow>
            handle e d POST_login req = (json 401 (Error ''Invalid credentials''), d)"
  proof
    assume "\<forall>u \<in> set (user_rows d). chars (u_email u) \<noteq> em"
    then have "user_findUnique d (Some (JString em)) = Inr None"
      using email(3) by (simp add: user_findUnique_def find_None_iff)
    then show "handle e d POST_login req = (json 401 (Error ''Invalid credentials''), d)"
      using email pw by (simp add: post_login_def)
  qed
  have mismatch: "\<forall>u \<in> set (user_rows d). chars (u_email u) = em \<and> \<not> bcrypt_compare e pw (u_password u) \<longrightarrow>
            handle e d POST_login req = (json 401 (Error ''Invalid credentials''), d)"
  proof (intro ballI impI)
    fix u assume u: "u \<in> set (user_rows d)"
      and h: "chars (u_email u) = em \<and> \<not> bcrypt_compare e pw (u_password u)"
    have "find (\<lambda>y. chars (u_email y) = chars (u_email u)) (user_rows d) = Some u"
      using find_key_member [OF uniq u] by (simp add: chars_eq_iff)
    then have "user_findUnique d (Some (JString em)) = Inr (Some u)"
      using h email(3) by (auto simp: user_findUnique_def)
    then show "handle e d POST_login req = (json 401 (Error ''Invalid credentials''), d)"
      using email pw h by (simp add: post_login_def)
  qed
  from unknown mismatch show ?thesis by blast
qed

text \<open>
  A password that is truthy but not a string passes the check of line 27. With an email
  that no user has, the lookup answers first: 401. With the email of a stored user the
  password reaches \<^verbatim>\<open>bcrypt.compare\<close>, which throws: 500.
\<close>

lemma login_non_string_password:
  assumes email: "field req ''email'' = Some (JString em)" "em \<noteq> []" "valid_text em"
      and pw: "field req ''password'' = Some v" "truthy (Some v)" "\<And>s. v \<noteq> JString s"
  shows "post_login e d req =
           (if \<exists>u \<in> set (user_rows d). chars (u_email u) = em
            then json 500 (Error ''Internal server error'')
            else json 401 (Error ''Invalid credentials''))"
proof (cases "find (\<lambda>u. chars (u_email u) = em) (user_rows d)")
  case None
  then have "\<not> (\<exists>u \<in> set (user_rows d). chars (u_email u) = em)"
    by (simp add: find_None_iff)
  then show ?thesis
    using None email pw(1,2) by (simp add: post_login_def user_findUnique_def)
next
  case (Some u)
  then have "\<exists>u \<in> set (user_rows d). chars (u_email u) = em"
    by (auto simp: find_Some_iff)
  then show ?thesis
    using Some email pw by (cases v) (auto simp: post_login_def user_findUnique_def internal_error_def)
qed

text \<open>
  C5. The login is to answer an unknown email and a wrong password alike, with 401 and one
  message, so that the answer does not tell which of the two failed. With the number 12345
  as the password it does tell: the request with Alice's email, a stored user, is answered
  500 \<open>Internal server error\<close>, the request with an email that no user has is answered 401
  \<open>Invalid credentials\<close>.
\<close>

theorem login_number_password_tells_known_email:
  "handle demo_env demo_db POST_login (login_number ''alice@acme.test'' 12345)
     = (json 500 (Error ''Internal server error''), demo_db)
   \<and> handle demo_env demo_db POST_login (login_number ''ghost@nowhere.test'' 12345)
     = (json 401 (Error ''Invalid credentials''), demo_db)"
  by (simp add: post_login_def user_findUnique_def field_def login_number_def internal_error_def
        demo_db_def alice_def bob_def carol_def demo_texts)

text \<open>
  C6. A login answered 200 carries, for the stored user \<open>u\<close> with the request's email, the
  token signed over \<^verbatim>\<open>{ userId, tenantId, role }\<close> of \<open>u\<close> and a user object with the four
  fields id, email, role and tenantId of \<open>u\<close>, and nothing else. No login response depends on
  a stored hash beyond the outcome of the comparison: replacing every stored hash \<open>h\<close> by
  \<open>g h\<close>, with a comparison that accepts \<open>g h\<close> exactly where the old one accepted \<open>h\<close>, leaves
  every response as it was.
\<close>

theorem login_response_sanitized:
  shows "(status (post_login e d req) = 200 \<longrightarrow>
           (\<exists>u \<in> set (user_rows d). field req ''email'' = Some (JString (chars (u_email u)))
              \<and> post_login e d req =
                  json 200 (LoginJson (jwt_sign e \<lparr>userId = u_id u, tenantId = u_tenantId u, role = u_role u\<rparr>)
                              \<lparr>su_id = u_id u, su_email = u_email u, su_role = u_role u,
                               su_tenantId = u_tenantId u\<rparr>)))
       \<and> (\<forall>g cmp. (\<forall>p h. cmp p (g h) = bcrypt_compare e p h) \<longrightarrow>
            post_login (e\<lparr>bcrypt_compare := cmp\<rparr>)
                       (d\<lparr>user_rows := map (\<lambda>u. u\<lparr>u_password := g (u_password u)\<rparr>) (user_rows d)\<rparr>) req
              = post_login e d req)"
proof -
  have ok: "status (post_login e d req) = 200 \<longrightarrow>
           (\<exists>u \<in> set (user_rows d). field req ''email'' = Some (JString (chars (u_email u)))
              \<and> post_login e d req =
                  json 200 (LoginJson (jwt_sign e \<lparr>userId = u_id u, tenantId = u_tenantId u, role = u_role u\<rparr>)
                              \<lparr>su_id = u_id u, su_email = u_email u, su_role = u_role u,
                               su_tenantId = u_tenantId u\<rparr>))"
    by (auto simp: post_login_def user_findUnique_def toSafeUser_def json_def internal_error_def
                   Let_def find_Some_iff
             split: option.splits if_splits jsval.splits sum.splits)
  have indep: "\<forall>g cmp. (\<forall>p h. cmp p (g h) = bcrypt_compare e p h) \<longrightarrow>
            post_login (e\<lparr>bcrypt_compare := cmp\<rparr>)
                       (d\<lparr>user_rows := map (\<lambda>u. u\<lparr>u_password := g (u_password u)\<rparr>) (user_rows d)\<rparr>) req
              = post_login e d req"
  proof (intro allI impI)
    fix g :: "pg_text \<Rightarrow> pg_text" and cmp
    assume c: "\<forall>p h. cmp p (g h) = bcrypt_compare e p h"
    let ?f = "\<lambda>u. u\<lparr>u_password := g (u_password u)\<rparr>"
    let ?d = "d\<lparr>user_rows := map ?f (user_rows d)\<rparr>"
    have look: "user_findUnique ?d v = map_sum id (map_option ?f) (user_findUnique d v)" for v
      by (auto simp: user_findUnique_def find_map_email split: option.splits jsval.splits)
    show "post_login (e\<lparr>bcrypt_compare := cmp\<rparr>) ?d req = post_login e d req"
      unfolding post_login_def look
      by (cases "user_findUnique d (field req ''email'')")
         (auto simp: Let_def toSafeUser_def c split: option.splits jsval.splits)
  qed
  from ok indep show ?thesis by blast
qed

theorem login_response_sanitized_witness:
  "post_login demo_env demo_db (login_body ''alice@acme.test'' ''pw-alice'')
     = json 200 (LoginJson ''tok-u-alice''
                  \<lparr>su_id = Text ''u-alice'', su_email = Text ''alice@acme.test'', su_role = ADMIN,
                   su_tenantId = Text ''t-acme''\<rparr>)
   \<and> post_login (demo_env\<lparr>bcrypt_compare := (\<lambda>p h. chars h = ''salted:hash:'' @ p)\<rparr>)
         (demo_db\<lparr>user_rows := map (\<lambda>u. u\<lparr>u_password := Text (''salted:'' @ chars (u_password u))\<rparr>)
                                    (user_rows demo_db)\<rparr>)
         (login_body ''alice@acme.test'' ''pw-alice'')
     = post_login demo_env demo_db (login_body ''alice@acme.test'' ''pw-alice'')"
proof -
  let ?req = "login_body ''alice@acme.test'' ''pw-alice''"
  have val: "post_login demo_env demo_db ?req
     = json 200 (LoginJson ''tok-u-alice''
                  \<lparr>su_id = Text ''u-alice'', su_email = Text ''alice@acme.test'', su_role = ADMIN,
                   su_tenantId = Text ''t-acme''\<rparr>)"
    by (simp add: post_login_def user_findUnique_def field_def login_body_def toSafeUser_def
          demo_db_def demo_env_def alice_def bob_def carol_def demo_texts)
  then have ok: "status (post_login demo_env demo_db ?req) = 200"
    by (simp add: json_def)
  have salted: "valid_text (''salted:'' @ chars h)" for h
    using valid_chars [of h] by (simp add: valid_text_def)
  have cmp: "\<forall>p h. (chars (Text (''salted:'' @ chars h)) = ''salted:hash:'' @ p) = bcrypt_compare demo_env p h"
    by (simp only: chars_Text [OF salted]) (simp add: demo_env_def)
  note th = login_response_sanitized [of demo_env demo_db ?req]
  have used: "\<exists>u \<in> set (user_rows demo_db). field ?req ''email'' = Some (JString (chars (u_email u)))"
    using th [THEN conjunct1] ok by blast
  have rehash: "post_login (demo_env\<lparr>bcrypt_compare := (\<lambda>p h. chars h = ''salted:hash:'' @ p)\<rparr>)
         (demo_db\<lparr>user_rows := map (\<lambda>u. u\<lparr>u_password := Text (''salted:'' @ chars (u_password u))\<rparr>)
                                    (user_rows demo_db)\<rparr>)
         ?req = post_login demo_env demo_db ?req"
    using th [THEN conjunct2, rule_format, of "\<lambda>p h. chars h = ''salted:hash:'' @ p"
                "\<lambda>h. Text (''salted:'' @ chars h)"] cmp
    by simp
  from used val rehash show ?thesis by simp
qed

section \<open>Note update\<close>








section \<open>Errors and the state\<close>

lemma authenticate_error: "authenticate e req = Inl r \<Longrightarrow> status r = 401"
  by (auto simp: authenticate_def json_def Let_def split: option.splits if_splits)

lemma post_notes_frame:
  "(status (fst (post_notes e d c req)) \<in> {400, 401, 402, 403, 404, 500} \<longrightarrow> snd (post_notes e d c req) = d)
   \<and> status (fst (post_notes e d c req)) \<in> {201, 400, 402, 404, 500}
   \<and> tenant_rows (snd (post_notes e d c req)) = tenant_rows d
   \<and> user_rows (snd (post_notes e d c req)) = user_rows d"
  by (auto simp: post_notes_def note_create_def json_def internal_error_def Let_def
           split: option.splits jsval.splits)

lemma put_notes_id_frame:
  "(status (fst (put_notes_id e d c i req)) \<in> {400, 401, 402, 403, 404, 500} \<longrightarrow> snd (put_notes_id e d c i req) = d)
   \<and> status (fst (put_notes_id e d c i req)) \<in> {200, 404, 500}
   \<and> tenant_rows (snd (put_notes_id e d c i req)) = tenant_rows d
   \<and> user_rows (snd (put_notes_id e d c i req)) = user_rows d"
  by (auto simp: put_notes_id_def note_update_def json_def internal_error_def Let_def
           split: option.splits sum.splits)

lemma delete_notes_id_frame:
  "(status (fst (delete_notes_id d c i)) \<in> {400, 401, 402, 403, 404, 500} \<longrightarrow> snd (delete_notes_id d c i) = d)
   \<and> status (fst (delete_notes_id d c i)) \<in> {204, 404, 500}
   \<and> tenant_rows (snd (delete_notes_id d c i)) = tenant_rows d
   \<and> user_rows (snd (delete_notes_id d c i)) = user_rows d"
  by (auto simp: delete_notes_id_def note_delete_def json_def internal_error_def
           split: option.splits sum.splits)

lemma get_notes_id_frame:
  "snd (get_notes_id d c i) = d \<and> status (fst (get_notes_id d c i)) \<in> {200, 404, 500}"
  by (auto simp: get_notes_id_def json_def internal_error_def split: option.splits sum.splits)

lemma post_tenants_upgrade_frame:
  "(status (fst (post_tenants_upgrade e d c slug)) \<in> {400, 401, 402, 403, 404, 500} \<longrightarrow>
      snd (post_tenants_upgrade e d c slug) = d)
   \<and> status (fst (post_tenants_upgrade e d c slug)) \<in> {200, 403, 404, 500}
   \<and> note_rows (snd (post_tenants_upgrade e d c slug)) = note_rows d
   \<and> user_rows (snd (post_tenants_upgrade e d c slug)) = user_rows d"
  by (auto simp: post_tenants_upgrade_def tenant_update_def json_def internal_error_def Let_def
           split: option.splits sum.splits)

lemma post_login_status: "status (post_login e d req) \<in> {200, 400, 401, 500}"
  by (auto simp: post_login_def json_def internal_error_def Let_def
           split: option.splits sum.splits jsval.splits)

text \<open>
  C9. Whatever the route and the request, a response with status 400, 401, 402, 403, 404
  or 500 leaves the stored state as it was. Every response has one of the statuses of the
  interface, no handler touches the users, and no handler changes both the tenants and the
  notes: a request makes at most one change.
\<close>

theorem error_leaves_state_unchanged:
  "(status (fst (handle e d r req)) \<in> {400, 401, 402, 403, 404, 500} \<longrightarrow> snd (handle e d r req) = d)
   \<and> status (fst (handle e d r req)) \<in> {200, 201, 204, 400, 401, 402, 403, 404, 500}
   \<and> user_rows (snd (handle e d r req)) = user_rows d
   \<and> (tenant_rows (snd (handle e d r req)) = tenant_rows d \<or> note_rows (snd (handle e d r req)) = note_rows d)"
proof (cases "authenticate e req")
  case (Inl resp)
  then have s: "status resp = 401" by (rule authenticate_error)
  show ?thesis
  proof (cases r)
    case GET_health then show ?thesis by (simp add: get_health_def json_def)
  next
    case POST_login then show ?thesis using post_login_status [of e d req] by auto
  qed (simp_all add: authenticated_def Inl s)
next
  case (Inr c)
  show ?thesis
  proof (cases r)
    case GET_health then show ?thesis by (simp add: get_health_def json_def)
  next
    case POST_login then show ?thesis using post_login_status [of e d req] by auto
  next
    case POST_notes then show ?thesis
      using post_notes_frame [of e d c req] by (auto simp: authenticated_def Inr)
  next
    case GET_notes then show ?thesis by (simp add: authenticated_def Inr get_notes_def json_def)
  next
    case (GET_notes_id i) then show ?thesis
      using get_notes_id_frame [of d c i] by (auto simp: authenticated_def Inr)
  next
    case (PUT_notes_id i) then show ?thesis
      using put_notes_id_frame [of e d c i req] by (auto simp: authenticated_def Inr)
  next
    case (DELETE_notes_id i) then show ?thesis
      using delete_notes_id_frame [of d c i] by (auto simp: authenticated_def Inr)
  next
    case (POST_tenants_upgrade slug) then show ?thesis
      using post_tenants_upgrade_frame [of e d c slug]
      by (auto simp: authenticated_def Inr requireRole_def json_def)
  qed
qed

theorem error_leaves_state_unchanged_witness:
  "status (fst (handle demo_env demo_db POST_notes (bearer ''tok-u-bob'' (note_body ''Fourth'' ''One too many'')))) = 402
   \<and> snd (handle demo_env demo_db POST_notes (bearer ''tok-u-bob'' (note_body ''Fourth'' ''One too many''))) = demo_db
   \<and> status (fst (handle demo_env demo_db (DELETE_notes_id ''n4'') (bearer ''tok-u-bob'' None))) = 404
   \<and> snd (handle demo_env demo_db (DELETE_notes_id ''n4'') (bearer ''tok-u-bob'' None)) = demo_db"
proof -
  let ?post = "bearer ''tok-u-bob'' (note_body ''Fourth'' ''One too many'')"
  have s1: "status (fst (handle demo_env demo_db POST_notes ?post)) = 402"
    by (simp add: authenticated_def authenticate_def bearer_def note_body_def field_def
          post_notes_def tenant_findUnique_def note_count_def json_def
          demo_env_def demo_db_def claims_of_def bob_def acme_def globex_def
          note1_def note2_def note3_def note4_def demo_texts)
  have s2: "status (fst (handle demo_env demo_db (DELETE_notes_id ''n4'') (bearer ''tok-u-bob'' None))) = 404"
    by (simp add: authenticated_def authenticate_def bearer_def
          delete_notes_id_def note_findFirst_def json_def
          demo_env_def demo_db_def claims_of_def bob_def
          note1_def note2_def note3_def note4_def demo_texts)
  show ?thesis
    using error_leaves_state_unchanged [of demo_env demo_db POST_notes ?post]
          error_leaves_state_unchanged [of demo_env demo_db "DELETE_notes_id ''n4''" "bearer ''tok-u-bob'' None"]
          s1 s2
    by simp
qed

section \<open>The keys are kept\<close>

text \<open>Every route leaves the primary keys and the unique columns without duplicates.\<close>

lemma handle_keeps_keys:
  assumes "keys_ok d"
  shows "keys_ok (snd (handle e d r req))"
proof (cases "authenticate e req")
  case (Inl resp)
  then show ?thesis using assms by (cases r) (simp_all add: authenticated_def)
next
  case (Inr c)
  show ?thesis
  proof (cases r)
    case POST_notes then show ?thesis
      using assms
      by (auto simp: authenticated_def Inr post_notes_def note_create_def keys_ok_def Let_def
               split: option.splits jsval.splits)
  next
    case (PUT_notes_id i) then show ?thesis
      using assms
      by (auto simp: authenticated_def Inr put_notes_id_def note_update_def keys_ok_def Let_def
                     o_def if_distrib [where f = n_id]
               split: option.splits sum.splits if_splits cong: if_cong)
  next
    case (DELETE_notes_id i) then show ?thesis
      using assms
      by (auto simp: authenticated_def Inr delete_notes_id_def note_delete_def keys_ok_def
                     distinct_map_filter
               split: option.splits sum.splits)
  next
    case (POST_tenants_upgrade slug) then show ?thesis
      using assms
      by (auto simp: authenticated_def Inr requireRole_def post_tenants_upgrade_def tenant_update_def
                     keys_ok_def Let_def o_def if_distrib [where f = t_id] if_distrib [where f = t_slug]
               split: option.splits sum.splits if_splits cong: if_cong)
  qed (use assms in \<open>simp_all add: authenticated_def Inr get_notes_def get_notes_id_def
          split: option.splits sum.splits\<close>)
qed

section \<open>Listing\<close>

text \<open>
  \<^verbatim>\<open>GET /notes\<close> lists the notes of the caller's tenant and no others, latest first, whatever
  the order of the scan.
\<close>

lemma note_findMany_rows:
  "set (note_findMany e d tid) = {n \<in> set (note_rows d). n_tenantId n = tid}
   \<and> sorted (rev (map n_createdAt (note_findMany e d tid)))"
  by (auto simp: note_findMany_def rev_map [symmetric])

end
